theory Spec2Isabelle
  imports Main
begin

section \<open>Errors\<close>

text \<open>
  Every exception the two source files can raise is a value. \<open>AttributeError\<close> and
  \<open>IndexError\<close> are the Python exceptions with their messages: the first is raised by
  \<^verbatim>\<open>scan_hdf5\<close> itself (\<^verbatim>\<open>raise AttributeError("MyErr: path not str or path?")\<close>) and by
  an attribute lookup that fails, the second by indexing a list out of range.
  The specification's \<open>InvalidSourceKind\<close> is the \<open>AttributeError\<close> of \<^verbatim>\<open>scan_hdf5\<close>.
  \<open>EngineExecutionError\<close> is whatever the engine raises, with the engine's message.
  \<open>ColumnIndexOutOfRange\<close> and \<open>UnknownColumnReference\<close> are the specification's errors:
  the first is raised by the specification's \<open>selectColumns\<close> only, the second by the
  engine's binding step.
\<close>

datatype error =
    AttributeError string
  | IndexError string
  | EngineExecutionError string
  | ColumnIndexOutOfRange int nat
  | UnknownColumnReference string "string list"

section \<open>Tables\<close>

text \<open>
  A realized table (\<^verbatim>\<open>DataFrame\<close>) is its ordered columns, each a name and its values.
  The values are integers, the only column type the specification's examples use.
\<close>

type_synonym column = "string \<times> int list"
type_synonym table = "column list"

section \<open>The HDF5 reader: \<^verbatim>\<open>polars/io/hdf5/functions.py\<close>\<close>

subsection \<open>What the functions import\<close>

text \<open>
  The value a caller passes as \<^verbatim>\<open>source\<close>. Python checks its shape at run time with
  \<^verbatim>\<open>isinstance(source, (str, Path))\<close>, so every shape is a constructor.
\<close>

datatype source_value =
    SrcStr string
  | SrcPath string
  | SrcList "source_value list"
  | SrcBytes string
  | SrcStream
  | SrcNone

text \<open>
  What \<^verbatim>\<open>_scan_hdf5_impl\<close> receives: \<^verbatim>\<open>str | list[str] | list[Path]\<close>.
\<close>

datatype impl_source = OneSource string | ManySources "string list"

text \<open>
  The \<^verbatim>\<open>columns\<close> argument of \<^verbatim>\<open>read_hdf5\<close>: \<^verbatim>\<open>Sequence[int] | Sequence[str]\<close>
  (and \<^verbatim>\<open>None\<close>, the \<open>option\<close>).
\<close>

datatype column_selector = IntSeq "int list" | StrSeq "string list"

text \<open>\<^verbatim>\<open>LazyFrame\<close>, the Python wrapper of the engine's plan handle.\<close>

datatype 'p lazyframe = LazyFrame (pyldf: 'p)

text \<open>
  Modelled from the spec: the functions that \<^verbatim>\<open>functions.py\<close> imports and that are not
  among the source files, taken as parameters. \<open>'p\<close> is the engine's plan handle
  (\<^verbatim>\<open>PyLazyFrame\<close>).
  \<^item> \<open>normalize_filepath\<close> is \<^verbatim>\<open>polars._utils.various.normalize_filepath\<close>: the path as
    a string, home directory expanded (spec 4.1: no file-system access).
  \<^item> \<open>new_from_hdf5\<close> is \<^verbatim>\<open>PyLazyFrame.new_from_hdf5(source, sources, subgroup, format)\<close>,
    the engine's build-scan-plan primitive; it may refuse synchronously (spec 4.2).
  \<^item> \<open>columns_of\<close> is \<^verbatim>\<open>LazyFrame.columns\<close>, the schema obtained without materializing
    rows (spec 3); \<open>select_cols\<close> is \<^verbatim>\<open>LazyFrame.select\<close> on a list of names, which
    builds a new plan (spec 4.3); \<open>collect\<close> is \<^verbatim>\<open>LazyFrame.collect\<close>, the one
    operation that may fail with an engine error (spec 4.4).
\<close>

record 'p engine =
  normalize_filepath :: "string \<Rightarrow> string"
  new_from_hdf5 :: "string option \<Rightarrow> string list \<Rightarrow> string option \<Rightarrow> string option \<Rightarrow> error + 'p"
  columns_of :: "'p \<Rightarrow> string list"
  select_cols :: "'p \<Rightarrow> string list \<Rightarrow> 'p"
  collect :: "'p \<Rightarrow> error + table"

text \<open>\<^verbatim>\<open>polars._utils.wrap.wrap_ldf\<close>: \<^verbatim>\<open>LazyFrame._from_pyldf(ldf)\<close>.\<close>

definition wrap_ldf :: "'p \<Rightarrow> 'p lazyframe" where
  "wrap_ldf pylf = LazyFrame pylf"

text \<open>
  Modelled from the spec: \<^verbatim>\<open>polars._utils.various.is_int_sequence\<close>, not among the source
  files. It holds of a sequence all of whose elements are integers, so of the empty
  sequence too.
\<close>

fun is_int_sequence :: "column_selector \<Rightarrow> bool" where
  "is_int_sequence (IntSeq ps) = True"
| "is_int_sequence (StrSeq ns) = (ns = [])"

subsection \<open>Python list indexing\<close>

text \<open>
  \<^verbatim>\<open>xs[i]\<close> on a list, in CPython on a 64-bit platform. A negative index counts from
  the end. An index outside \<open>-len \<le> i < len\<close> raises \<^verbatim>\<open>IndexError\<close>: with the message
  "list index out of range" where the index fits a machine index (\<open>- 2^63 \<le> i < 2^63\<close>),
  and with the message "cannot fit 'int' into an index-sized integer" where it does not.
  A list is shorter than \<open>2^63\<close>, so an index within the list always fits.
\<close>

definition fits_index :: "int \<Rightarrow> bool" where
  "fits_index i = (- (2 ^ 63) \<le> i \<and> i < 2 ^ 63)"

definition cannot_fit_message :: string where
  "cannot_fit_message =
     ''cannot fit '' @ [CHR 0x27] @ ''int'' @ [CHR 0x27] @ '' into an index-sized integer''"

definition py_getitem :: "'a list \<Rightarrow> int \<Rightarrow> error + 'a" where
  "py_getitem xs i =
     (if - int (length xs) \<le> i \<and> i < int (length xs)
      then (if i < 0 then Inr (xs ! nat (int (length xs) + i)) else Inr (xs ! nat i))
      else if fits_index i then Inl (IndexError ''list index out of range'')
      else Inl (IndexError cannot_fit_message))"

text \<open>
  The list comprehension \<^verbatim>\<open>[lf.columns[i] for i in columns]\<close>: the positions are
  looked up from left to right and the first failure ends the comprehension.
\<close>

fun columns_at :: "string list \<Rightarrow> int list \<Rightarrow> error + string list" where
  "columns_at cols [] = Inr []"
| "columns_at cols (i # is) =
     (case py_getitem cols i of
        Inl e \<Rightarrow> Inl e
      | Inr c \<Rightarrow> (case columns_at cols is of Inl e \<Rightarrow> Inl e | Inr cs \<Rightarrow> Inr (c # cs)))"

subsection \<open>The source functions\<close>

text \<open>
  Lines 129 to 133 of \<^verbatim>\<open>_scan_hdf5_impl\<close>: a list becomes \<^verbatim>\<open>sources\<close> and \<^verbatim>\<open>source\<close>
  becomes \<^verbatim>\<open>None\<close>; anything else stays \<^verbatim>\<open>source\<close> and \<^verbatim>\<open>sources\<close> is \<^verbatim>\<open>[]\<close>.
\<close>

fun source_and_sources :: "impl_source \<Rightarrow> string option \<times> string list" where
  "source_and_sources (ManySources xs) = (None, xs)"
| "source_and_sources (OneSource s) = (Some s, [])"

text \<open>\<^verbatim>\<open>_scan_hdf5_impl\<close>: the call of the engine's primitive, and \<^verbatim>\<open>wrap_ldf\<close>.\<close>

definition scan_hdf5_impl ::
  "'p engine \<Rightarrow> impl_source \<Rightarrow> string option \<Rightarrow> string option \<Rightarrow> error + 'p lazyframe" where
  "scan_hdf5_impl E source subgroup format =
     (case source_and_sources source of
        (source', sources) \<Rightarrow>
          (case new_from_hdf5 E source' sources subgroup format of
             Inl e \<Rightarrow> Inl e
           | Inr pylf \<Rightarrow> Inr (wrap_ldf pylf)))"

text \<open>
  \<^verbatim>\<open>scan_hdf5\<close>: a \<^verbatim>\<open>str\<close> or a \<^verbatim>\<open>Path\<close> is normalized and handed on; every other
  value raises (the branch that would normalize a list is commented out in the source).
\<close>

fun scan_hdf5 ::
  "'p engine \<Rightarrow> source_value \<Rightarrow> string option \<Rightarrow> string option \<Rightarrow> error + 'p lazyframe" where
  "scan_hdf5 E (SrcStr s) subgroup format =
     scan_hdf5_impl E (OneSource (normalize_filepath E s)) subgroup format"
| "scan_hdf5 E (SrcPath s) subgroup format =
     scan_hdf5_impl E (OneSource (normalize_filepath E s)) subgroup format"
| "scan_hdf5 E other subgroup format =
     Inl (AttributeError ''MyErr: path not str or path?'')"

text \<open>The positions an integer selector holds (none where it is not one).\<close>

fun positions :: "column_selector \<Rightarrow> int list" where
  "positions (IntSeq ps) = ps"
| "positions (StrSeq ns) = []"

fun names :: "column_selector \<Rightarrow> string list" where
  "names (StrSeq ns) = ns"
| "names (IntSeq ps) = []"

text \<open>
  \<^verbatim>\<open>read_hdf5\<close>: \<^verbatim>\<open>scan_hdf5\<close>; then, when \<^verbatim>\<open>columns\<close> is not \<^verbatim>\<open>None\<close>, an integer
  selector is turned into names against \<^verbatim>\<open>lf.columns\<close> and \<^verbatim>\<open>lf.select(columns)\<close>
  is taken; then \<^verbatim>\<open>lf.collect()\<close>.
\<close>

definition read_hdf5 ::
  "'p engine \<Rightarrow> source_value \<Rightarrow> string option \<Rightarrow> string option \<Rightarrow> column_selector option
     \<Rightarrow> error + table" where
  "read_hdf5 E source subgroup format columns =
     (case scan_hdf5 E source subgroup format of
        Inl e \<Rightarrow> Inl e
      | Inr lf \<Rightarrow>
          (case columns of
             None \<Rightarrow> collect E (pyldf lf)
           | Some sel \<Rightarrow>
               (case (if is_int_sequence sel
                      then columns_at (columns_of E (pyldf lf)) (positions sel)
                      else Inr (names sel)) of
                  Inl e \<Rightarrow> Inl e
                | Inr cols \<Rightarrow> collect E (pyldf (LazyFrame (select_cols E (pyldf lf) cols))))))"

subsection \<open>The specification's three steps\<close>

text \<open>
  The specification's surface operations, in its own words (sections 4.3 and 6), to be
  compared with \<^verbatim>\<open>read_hdf5\<close>. \<open>buildScan\<close> is \<^verbatim>\<open>scan_hdf5\<close> and \<open>materialize\<close> is
  \<^verbatim>\<open>collect\<close>. \<open>selectColumns\<close> resolves zero-based positions against the frame's
  schema, an out-of-range position failing with \<open>ColumnIndexOutOfRange\<close> that names the
  index and the schema length; it applies the names as a column subset and returns a new
  frame; an absent selector is a no-op.
\<close>

definition buildScan ::
  "'p engine \<Rightarrow> source_value \<Rightarrow> string option \<Rightarrow> string option \<Rightarrow> error + 'p lazyframe" where
  "buildScan E source subgroup format = scan_hdf5 E source subgroup format"

fun resolve_positions :: "string list \<Rightarrow> int list \<Rightarrow> error + string list" where
  "resolve_positions schema [] = Inr []"
| "resolve_positions schema (i # is) =
     (if 0 \<le> i \<and> i < int (length schema)
      then (case resolve_positions schema is of
              Inl e \<Rightarrow> Inl e
            | Inr cs \<Rightarrow> Inr (schema ! nat i # cs))
      else Inl (ColumnIndexOutOfRange i (length schema)))"

fun selectColumns ::
  "'p engine \<Rightarrow> 'p lazyframe \<Rightarrow> column_selector option \<Rightarrow> error + 'p lazyframe" where
  "selectColumns E frame None = Inr frame"
| "selectColumns E frame (Some (StrSeq ns)) = Inr (LazyFrame (select_cols E (pyldf frame) ns))"
| "selectColumns E frame (Some (IntSeq ps)) =
     (case resolve_positions (columns_of E (pyldf frame)) ps of
        Inl e \<Rightarrow> Inl e
      | Inr ns \<Rightarrow> Inr (LazyFrame (select_cols E (pyldf frame) ns)))"

definition materialize :: "'p engine \<Rightarrow> 'p lazyframe \<Rightarrow> error + table" where
  "materialize E frame = collect E (pyldf frame)"

definition build_select_materialize ::
  "'p engine \<Rightarrow> source_value \<Rightarrow> string option \<Rightarrow> string option \<Rightarrow> column_selector option
     \<Rightarrow> error + table" where
  "build_select_materialize E source subgroup format columns =
     (case buildScan E source subgroup format of
        Inl e \<Rightarrow> Inl e
      | Inr frame \<Rightarrow>
          (case selectColumns E frame columns of
             Inl e \<Rightarrow> Inl e
           | Inr frame' \<Rightarrow> materialize E frame'))"

text \<open>
  A selector the specification calls valid for a schema: names, or zero-based positions
  all within the schema.
\<close>

fun valid_selector :: "string list \<Rightarrow> column_selector option \<Rightarrow> bool" where
  "valid_selector schema None = True"
| "valid_selector schema (Some (StrSeq ns)) = True"
| "valid_selector schema (Some (IntSeq ps)) = list_all (\<lambda>i. 0 \<le> i \<and> i < int (length schema)) ps"

subsection \<open>An engine to run the functions on\<close>

text \<open>
  A small engine for the concrete runs below. Its plans are descriptions of the work; it
  knows two files, \<^verbatim>\<open>/data/d.h5\<close> with the columns x, y, z and \<^verbatim>\<open>/data/e.h5\<close> with the
  columns u, v; a path that starts with \<^verbatim>\<open>~\<close> is expanded to \<^verbatim>\<open>/data\<close>.
\<close>

datatype plan =
    Hdf5Scan "string option" "string list" "string option" "string option"
  | Select plan "string list"

fun demo_normalize :: "string \<Rightarrow> string" where
  "demo_normalize [] = []"
| "demo_normalize (c # cs) = (if c = CHR ''~'' then ''/data'' @ cs else c # cs)"

fun demo_file :: "string option \<Rightarrow> (error + table)" where
  "demo_file None = Inl (EngineExecutionError ''no source'')"
| "demo_file (Some p) =
     (if p = ''/data/d.h5'' then Inr [(''x'', [1, 2]), (''y'', [3, 4]), (''z'', [5, 6])]
      else if p = ''/data/e.h5'' then Inr [(''u'', [7]), (''v'', [8])]
      else Inl (EngineExecutionError ''file not found''))"

fun pick_columns :: "table \<Rightarrow> string list \<Rightarrow> error + table" where
  "pick_columns t [] = Inr []"
| "pick_columns t (n # ns) =
     (case map_of t n of
        None \<Rightarrow> Inl (EngineExecutionError ''column not found'')
      | Some vs \<Rightarrow> (case pick_columns t ns of Inl e \<Rightarrow> Inl e | Inr cs \<Rightarrow> Inr ((n, vs) # cs)))"

fun demo_collect :: "plan \<Rightarrow> error + table" where
  "demo_collect (Hdf5Scan s ss sg f) = demo_file s"
| "demo_collect (Select p ns) =
     (case demo_collect p of Inl e \<Rightarrow> Inl e | Inr t \<Rightarrow> pick_columns t ns)"

fun demo_columns :: "plan \<Rightarrow> string list" where
  "demo_columns (Hdf5Scan s ss sg f) =
     (case demo_file s of Inl e \<Rightarrow> [] | Inr t \<Rightarrow> map fst t)"
| "demo_columns (Select p ns) = ns"

definition demo_engine :: "plan engine" where
  "demo_engine =
     \<lparr> normalize_filepath = demo_normalize,
       new_from_hdf5 = (\<lambda>s ss sg f. Inr (Hdf5Scan s ss sg f)),
       columns_of = demo_columns,
       select_cols = Select,
       collect = demo_collect \<rparr>"

text \<open>
  The caller values that pass \<^verbatim>\<open>isinstance(source, (str, Path))\<close>, and the path they
  hold.
\<close>

fun is_path_like :: "source_value \<Rightarrow> bool" where
  "is_path_like (SrcStr s) = True"
| "is_path_like (SrcPath s) = True"
| "is_path_like other = False"

fun path_text :: "source_value \<Rightarrow> string" where
  "path_text (SrcStr s) = s"
| "path_text (SrcPath s) = s"
| "path_text other = []"

section \<open>The template compiler: \<^verbatim>\<open>polars/_utils/TC_expressions.py\<close>\<close>

subsection \<open>\<^verbatim>\<open>re.sub\<close> on the placeholder pattern\<close>

text \<open>
  Strings are lists of ASCII characters. \<^verbatim>\<open>\w\<close> is a letter, a digit or the underscore
  (Python's \<^verbatim>\<open>\w\<close> also matches letters and digits outside ASCII; a template that holds
  a character outside printable ASCII is outside the fragment of \<^verbatim>\<open>eval\<close> modelled below,
  so nothing is stated about it).
\<close>

definition is_digit :: "char \<Rightarrow> bool" where
  "is_digit c = (c \<in> set ''0123456789'')"

definition is_name_start :: "char \<Rightarrow> bool" where
  "is_name_start c =
     (c \<in> set ''abcdefghijklmnopqrstuvwxyzABCDEFGHIJKLMNOPQRSTUVWXYZ_'')"

definition is_word_char :: "char \<Rightarrow> bool" where
  "is_word_char c = (is_name_start c \<or> is_digit c)"

definition quote :: char where
  "quote = CHR 0x27"

definition backslash :: char where
  "backslash = CHR 0x5C"

text \<open>
  \<^verbatim>\<open>re.sub(r"\{(\w+)\}", r"pl.col('\1')", value)\<close>: the text is scanned from the left; where
  an opening brace is followed by one or more word characters and a closing brace, the
  match is replaced by \<^verbatim>\<open>pl.col('...')\<close> around the word and the scan goes on after the
  closing brace; any other character is copied.
\<close>

function re_sub :: "string \<Rightarrow> string" where
  "re_sub [] = []"
| "re_sub (c # cs) =
     (if c = CHR ''{'' \<and> takeWhile is_word_char cs \<noteq> []
         \<and> (case dropWhile is_word_char cs of [] \<Rightarrow> False | d # ds \<Rightarrow> d = CHR ''}'')
      then ''pl.col('' @ [quote] @ takeWhile is_word_char cs @ [quote] @ '')''
             @ re_sub (tl (dropWhile is_word_char cs))
      else c # re_sub cs)"
  by pat_completeness auto
termination
proof (relation "measure length")
  fix c :: char and cs :: string
  have "length (tl (dropWhile is_word_char cs)) \<le> length cs"
    using length_dropWhile_le [of is_word_char cs] by simp
  then show "(tl (dropWhile is_word_char cs), c # cs) \<in> measure length"
    by simp
qed simp_all


subsection \<open>A fragment of Python's \<^verbatim>\<open>eval\<close>\<close>

text \<open>
  \<^verbatim>\<open>eval(expr_str, {"pl": pl})\<close> parses the text as a Python expression and evaluates it
  with the globals \<^verbatim>\<open>pl\<close> and, since the dictionary has no \<^verbatim>\<open>__builtins__\<close> key, the
  built-in names, which Python adds to it. The model covers a fragment of the language:
  decimal integers, single-quoted strings of plain characters, names, attribute access,
  calls, parentheses and the operators \<^verbatim>\<open>+\<close>, \<^verbatim>\<open>-\<close> and \<^verbatim>\<open>*\<close>. On a text outside the
  fragment the model answers \<open>None\<close>: it says nothing about what Python does there.
\<close>

datatype token =
    TName string | TInt int | TStr string
  | TLParen | TRParen | TDot | TComma | TPlus | TMinus | TStar

definition digit_value :: "char \<Rightarrow> int" where
  "digit_value c = int (of_char c) - 48"

definition int_of_digits :: "string \<Rightarrow> int" where
  "int_of_digits ds = foldl (\<lambda>a c. 10 * a + digit_value c) 0 ds"

definition is_plain_char :: "char \<Rightarrow> bool" where
  "is_plain_char c =
     (32 \<le> (of_char c :: nat) \<and> (of_char c :: nat) < 127 \<and> c \<noteq> quote \<and> c \<noteq> backslash)"

text \<open>
  The tokens of a text. Blanks separate tokens. A number is a run of digits with no
  leading zero, not followed by a word character or a dot (so no float, no other base,
  no digit separator). A string runs from a quote to the next quote and holds plain
  characters only (no escape).
\<close>

function tokenize :: "string \<Rightarrow> token list option" where
  "tokenize [] = Some []"
| "tokenize (c # cs) =
     (if c = CHR '' '' then tokenize cs
      else if is_name_start c then
        map_option (Cons (TName (c # takeWhile is_word_char cs)))
          (tokenize (dropWhile is_word_char cs))
      else if is_digit c then
        (if (c = CHR ''0'' \<and> takeWhile is_digit cs \<noteq> [])
            \<or> (case dropWhile is_digit cs of [] \<Rightarrow> False
                | d # ds \<Rightarrow> is_word_char d \<or> d = CHR ''.'')
         then None
         else map_option (Cons (TInt (int_of_digits (c # takeWhile is_digit cs))))
                (tokenize (dropWhile is_digit cs)))
      else if c = quote then
        (if dropWhile is_plain_char cs = [] \<or> hd (dropWhile is_plain_char cs) \<noteq> quote
         then None
         else map_option (Cons (TStr (takeWhile is_plain_char cs)))
                (tokenize (tl (dropWhile is_plain_char cs))))
      else if c = CHR ''('' then map_option (Cons TLParen) (tokenize cs)
      else if c = CHR '')'' then map_option (Cons TRParen) (tokenize cs)
      else if c = CHR ''.'' then map_option (Cons TDot) (tokenize cs)
      else if c = CHR '','' then map_option (Cons TComma) (tokenize cs)
      else if c = CHR ''+'' then map_option (Cons TPlus) (tokenize cs)
      else if c = CHR ''-'' then map_option (Cons TMinus) (tokenize cs)
      else if c = CHR ''*'' then map_option (Cons TStar) (tokenize cs)
      else None)"
  by pat_completeness auto
termination
proof (relation "measure length")
  fix c :: char and cs :: string
  have "length (tl (dropWhile is_plain_char cs)) \<le> length cs"
    using length_dropWhile_le [of is_plain_char cs] by simp
  then show "(tl (dropWhile is_plain_char cs), c # cs) \<in> measure length"
    by simp
qed (simp_all add: length_dropWhile_le less_Suc_eq_le)

text \<open>The syntax trees of the fragment, named as Python's \<^verbatim>\<open>ast\<close> module names them.\<close>

datatype binop = Add | Sub | Mult

datatype pyexpr =
    Name string
  | Num int
  | Str string
  | Attribute pyexpr string
  | Call pyexpr "pyexpr list"
  | BinOp pyexpr binop pyexpr

definition next_is :: "token \<Rightarrow> token list \<Rightarrow> bool" where
  "next_is t ts = (case ts of [] \<Rightarrow> False | u # us \<Rightarrow> u = t)"

fun atom :: "token list \<Rightarrow> pyexpr option" where
  "atom (TName x # ts) = Some (Name x)"
| "atom (TInt k # ts) = Some (Num k)"
| "atom (TStr s # ts) = Some (Str s)"
| "atom ts = None"

fun attribute_name :: "token list \<Rightarrow> string option" where
  "attribute_name (TName x # ts) = Some x"
| "attribute_name ts = None"

text \<open>
  A recursive-descent parser for Python's grammar of sums, products and primaries
  (an atom followed by attribute and call trailers). The goal says what is being
  parsed; \<open>SumRest\<close>, \<open>ProductRest\<close>, \<open>Trailers\<close> and \<open>Args\<close> carry what has been read so
  far. Both operator levels associate to the left. The first argument bounds the depth
  of the descent; where it runs out the answer is \<open>None\<close>.
\<close>

datatype goal =
    Sum
  | SumRest pyexpr
  | Product
  | ProductRest pyexpr
  | Primary
  | Trailers pyexpr
  | Args pyexpr "pyexpr list"

primrec parse_goal :: "nat \<Rightarrow> goal \<Rightarrow> token list \<Rightarrow> (pyexpr \<times> token list) option" where
  "parse_goal 0 g ts = None"
| "parse_goal (Suc n) g ts =
     (case g of
        Sum \<Rightarrow>
          (case parse_goal n Product ts of
             None \<Rightarrow> None
           | Some (l, rest) \<Rightarrow> parse_goal n (SumRest l) rest)
      | SumRest l \<Rightarrow>
          if next_is TPlus ts then
            (case parse_goal n Product (tl ts) of
               None \<Rightarrow> None
             | Some (r, rest) \<Rightarrow> parse_goal n (SumRest (BinOp l Add r)) rest)
          else if next_is TMinus ts then
            (case parse_goal n Product (tl ts) of
               None \<Rightarrow> None
             | Some (r, rest) \<Rightarrow> parse_goal n (SumRest (BinOp l Sub r)) rest)
          else Some (l, ts)
      | Product \<Rightarrow>
          (case parse_goal n Primary ts of
             None \<Rightarrow> None
           | Some (l, rest) \<Rightarrow> parse_goal n (ProductRest l) rest)
      | ProductRest l \<Rightarrow>
          if next_is TStar ts then
            (case parse_goal n Primary (tl ts) of
               None \<Rightarrow> None
             | Some (r, rest) \<Rightarrow> parse_goal n (ProductRest (BinOp l Mult r)) rest)
          else Some (l, ts)
      | Primary \<Rightarrow>
          (case atom ts of
             Some e \<Rightarrow> parse_goal n (Trailers e) (tl ts)
           | None \<Rightarrow>
               if next_is TLParen ts then
                 (case parse_goal n Sum (tl ts) of
                    None \<Rightarrow> None
                  | Some (e, rest) \<Rightarrow>
                      if next_is TRParen rest then parse_goal n (Trailers e) (tl rest)
                      else None)
               else None)
      | Trailers e \<Rightarrow>
          if next_is TDot ts then
            (case attribute_name (tl ts) of
               None \<Rightarrow> None
             | Some a \<Rightarrow> parse_goal n (Trailers (Attribute e a)) (tl (tl ts)))
          else if next_is TLParen ts then
            (if next_is TRParen (tl ts) then parse_goal n (Trailers (Call e [])) (tl (tl ts))
             else parse_goal n (Args e []) (tl ts))
          else Some (e, ts)
      | Args f as \<Rightarrow>
          (case parse_goal n Sum ts of
             None \<Rightarrow> None
           | Some (a, rest) \<Rightarrow>
               if next_is TComma rest then parse_goal n (Args f (as @ [a])) (tl rest)
               else if next_is TRParen rest
               then parse_goal n (Trailers (Call f (as @ [a]))) (tl rest)
               else None))"

text \<open>The whole text must be one expression.\<close>

definition parse :: "string \<Rightarrow> pyexpr option" where
  "parse text =
     (case tokenize text of
        None \<Rightarrow> None
      | Some ts \<Rightarrow>
          (case parse_goal (8 * length ts + 8) Sum ts of
             Some (e, []) \<Rightarrow> Some e
           | _ \<Rightarrow> None))"

subsection \<open>Values and the engine's expressions\<close>

text \<open>
  Modelled from the spec: the engine's expression objects (\<^verbatim>\<open>pl.Expr\<close>), which are not
  among the source files: a reference to a column, an integer literal, an arithmetic
  operation on two expressions, and an expression under an output name.
\<close>

datatype pl_expr =
    Col string
  | Lit int
  | BinaryExpr pl_expr binop pl_expr
  | Alias pl_expr string

text \<open>The Python values of the fragment: an \<^verbatim>\<open>int\<close>, a \<^verbatim>\<open>str\<close>, a \<^verbatim>\<open>pl.Expr\<close>.\<close>

datatype pyval = PyInt int | PyStr string | PyExpr pl_expr

fun apply_binop :: "binop \<Rightarrow> int \<Rightarrow> int \<Rightarrow> int" where
  "apply_binop Add a b = a + b"
| "apply_binop Sub a b = a - b"
| "apply_binop Mult a b = a * b"

text \<open>
  A binary operator: integer arithmetic on two \<^verbatim>\<open>int\<close>s, an engine expression when one
  side is an expression (the engine turns an \<^verbatim>\<open>int\<close> on the other side into a literal),
  concatenation for \<^verbatim>\<open>+\<close> on two strings. The other combinations are outside the
  fragment.
\<close>

fun py_binop :: "binop \<Rightarrow> pyval \<Rightarrow> pyval \<Rightarrow> pyval option" where
  "py_binop op (PyInt a) (PyInt b) = Some (PyInt (apply_binop op a b))"
| "py_binop op (PyExpr a) (PyExpr b) = Some (PyExpr (BinaryExpr a op b))"
| "py_binop op (PyExpr a) (PyInt b) = Some (PyExpr (BinaryExpr a op (Lit b)))"
| "py_binop op (PyInt a) (PyExpr b) = Some (PyExpr (BinaryExpr (Lit a) op b))"
| "py_binop Add (PyStr a) (PyStr b) = Some (PyStr (a @ b))"
| "py_binop op a b = None"

text \<open>
  The calls of the fragment, each on one argument: \<^verbatim>\<open>pl.col\<close> on the name of a column
  (a word, so no wildcard and no pattern), \<^verbatim>\<open>pl.lit\<close> on an \<^verbatim>\<open>int\<close>, and the built-in
  \<^verbatim>\<open>len\<close> on a string, which is among the built-in names that \<^verbatim>\<open>eval\<close> adds to the
  globals.
\<close>

definition call_function :: "pyexpr \<Rightarrow> pyval \<Rightarrow> pyval option" where
  "call_function f v =
     (if f = Attribute (Name ''pl'') ''col'' then
        (case v of
           PyStr s \<Rightarrow> if s \<noteq> [] \<and> list_all is_word_char s then Some (PyExpr (Col s)) else None
         | _ \<Rightarrow> None)
      else if f = Attribute (Name ''pl'') ''lit'' then
        (case v of PyInt k \<Rightarrow> Some (PyExpr (Lit k)) | _ \<Rightarrow> None)
      else if f = Name ''len'' then
        (case v of PyStr s \<Rightarrow> Some (PyInt (int (length s))) | _ \<Rightarrow> None)
      else None)"

fun eval_ast :: "pyexpr \<Rightarrow> pyval option" where
  "eval_ast (Num k) = Some (PyInt k)"
| "eval_ast (Str s) = Some (PyStr s)"
| "eval_ast (Name x) = None"
| "eval_ast (Attribute e a) = None"
| "eval_ast (BinOp l op r) =
     (case eval_ast l of
        None \<Rightarrow> None
      | Some a \<Rightarrow> (case eval_ast r of None \<Rightarrow> None | Some b \<Rightarrow> py_binop op a b))"
| "eval_ast (Call f args) =
     (case args of
        [x] \<Rightarrow> (case eval_ast x of None \<Rightarrow> None | Some v \<Rightarrow> call_function f v)
      | _ \<Rightarrow> None)"

text \<open>\<^verbatim>\<open>eval(text, {"pl": pl})\<close> on the fragment.\<close>

definition py_eval :: "string \<Rightarrow> pyval option" where
  "py_eval text = (case parse text of None \<Rightarrow> None | Some e \<Rightarrow> eval_ast e)"

text \<open>
  \<^verbatim>\<open>expr.alias(name)\<close> on what \<^verbatim>\<open>eval\<close> returned: an expression gets the output name; an
  \<^verbatim>\<open>int\<close> or a \<^verbatim>\<open>str\<close> has no such attribute and Python raises \<^verbatim>\<open>AttributeError\<close>.
\<close>

fun expr_alias :: "pyval \<Rightarrow> string \<Rightarrow> error + pl_expr" where
  "expr_alias (PyExpr e) name = Inr (Alias e name)"
| "expr_alias (PyInt k) name =
     Inl (AttributeError (quote # ''int'' @ quote # '' object has no attribute ''
            @ quote # ''alias'' @ [quote]))"
| "expr_alias (PyStr s) name =
     Inl (AttributeError (quote # ''str'' @ quote # '' object has no attribute ''
            @ quote # ''alias'' @ [quote]))"

subsection \<open>The engine's \<^verbatim>\<open>with_columns\<close>\<close>

text \<open>
  Modelled from the spec: \<^verbatim>\<open>DataFrame.with_columns\<close>, which is not among the source files,
  after section 4.5, steps 4 and 5. The expression is bound to the table's schema first:
  every column it references must exist, and an unresolvable reference fails with
  \<open>UnknownColumnReference\<close>, naming the column and the available schema. Then it is
  evaluated elementwise, a literal being one value for every row, and attached under its
  output name: it replaces a column of that name where there is one, otherwise it is
  appended at the end. Column values are mathematical integers.
\<close>

datatype series = Scalar int | Values "int list"

fun column_refs :: "pl_expr \<Rightarrow> string list" where
  "column_refs (Col c) = [c]"
| "column_refs (Lit k) = []"
| "column_refs (BinaryExpr l op r) = column_refs l @ column_refs r"
| "column_refs (Alias e n) = column_refs e"


definition bind_expr :: "string list \<Rightarrow> pl_expr \<Rightarrow> error + pl_expr" where
  "bind_expr schema e =
     (case filter (\<lambda>c. c \<notin> set schema) (column_refs e) of
        [] \<Rightarrow> Inr e
      | c # cs \<Rightarrow> Inl (UnknownColumnReference c schema))"

fun elementwise :: "binop \<Rightarrow> series \<Rightarrow> series \<Rightarrow> series" where
  "elementwise op (Scalar a) (Scalar b) = Scalar (apply_binop op a b)"
| "elementwise op (Scalar a) (Values ys) = Values (map (\<lambda>y. apply_binop op a y) ys)"
| "elementwise op (Values xs) (Scalar b) = Values (map (\<lambda>x. apply_binop op x b) xs)"
| "elementwise op (Values xs) (Values ys) = Values (map2 (apply_binop op) xs ys)"

fun eval_expr :: "table \<Rightarrow> pl_expr \<Rightarrow> error + series" where
  "eval_expr df (Col c) =
     (case map_of df c of
        None \<Rightarrow> Inl (UnknownColumnReference c (map fst df))
      | Some vs \<Rightarrow> Inr (Values vs))"
| "eval_expr df (Lit k) = Inr (Scalar k)"
| "eval_expr df (BinaryExpr l op r) =
     (case eval_expr df l of
        Inl e \<Rightarrow> Inl e
      | Inr a \<Rightarrow> (case eval_expr df r of Inl e \<Rightarrow> Inl e | Inr b \<Rightarrow> Inr (elementwise op a b)))"
| "eval_expr df (Alias e n) = eval_expr df e"

fun output_name :: "pl_expr \<Rightarrow> string" where
  "output_name (Alias e n) = n"
| "output_name (Col c) = c"
| "output_name (Lit k) = ''literal''"
| "output_name (BinaryExpr l op r) = output_name l"

fun height :: "table \<Rightarrow> nat" where
  "height [] = 0"
| "height ((n, vs) # cs) = length vs"

fun to_column :: "nat \<Rightarrow> series \<Rightarrow> int list" where
  "to_column h (Scalar a) = replicate h a"
| "to_column h (Values vs) = vs"

fun attach :: "string \<Rightarrow> int list \<Rightarrow> table \<Rightarrow> table" where
  "attach name vs [] = [(name, vs)]"
| "attach name vs ((n, ws) # cs) =
     (if n = name then (name, vs) # cs else (n, ws) # attach name vs cs)"

definition with_columns :: "table \<Rightarrow> pl_expr \<Rightarrow> error + table" where
  "with_columns df e =
     (case bind_expr (map fst df) e of
        Inl err \<Rightarrow> Inl err
      | Inr b \<Rightarrow>
          (case eval_expr df b of
             Inl err \<Rightarrow> Inl err
           | Inr s \<Rightarrow> Inr (attach (output_name b) (to_column (height df) s) df)))"

subsection \<open>The source function\<close>

text \<open>
  \<^verbatim>\<open>trans_func\<close>: the placeholders are rewritten by \<^verbatim>\<open>re.sub\<close>, the text is handed to
  \<^verbatim>\<open>eval\<close>, and \<^verbatim>\<open>df.with_columns(expr.alias(name))\<close> is returned. The answer is
  \<open>None\<close> where the rewritten text is outside the modelled fragment of \<^verbatim>\<open>eval\<close>.
\<close>

definition trans_func :: "table \<Rightarrow> string \<Rightarrow> string \<Rightarrow> (error + table) option" where
  "trans_func df name value =
     (let expr_str = re_sub value
      in case py_eval expr_str of
           None \<Rightarrow> None
         | Some expr \<Rightarrow>
             (case expr_alias expr name of
                Inl e \<Rightarrow> Some (Inl e)
              | Inr aliased \<Rightarrow> Some (with_columns df aliased)))"

section \<open>Properties of the HDF5 reader\<close>

subsection \<open>Indexing and the two ways of resolving positions\<close>

lemma py_getitem_error:
  "py_getitem xs i = Inl e \<Longrightarrow>
   e = IndexError (if fits_index i then ''list index out of range'' else cannot_fit_message)"
  by (auto simp: py_getitem_def split: if_splits)

lemma columns_at_out_of_range:
  "i \<in> set ps \<Longrightarrow> int (length cols) \<le> i \<Longrightarrow>
   columns_at cols ps = Inl (IndexError ''list index out of range'')
   \<or> columns_at cols ps = Inl (IndexError cannot_fit_message)"
proof (induction ps)
  case Nil
  then show ?case by simp
next
  case (Cons p ps)
  show ?case
  proof (cases "py_getitem cols p")
    case (Inl e)
    from py_getitem_error [OF this] Inl show ?thesis
      by (cases "fits_index p") simp_all
  next
    case (Inr c)
    then have "p \<noteq> i" using Cons.prems(2)
      by (auto simp: py_getitem_def split: if_splits)
    with Cons.prems have "i \<in> set ps" by simp
    from Cons.IH [OF this Cons.prems(2)] Inr show ?thesis
      by auto
  qed
qed

lemma columns_at_out_of_range_fitting:
  "i \<in> set ps \<Longrightarrow> int (length cols) \<le> i \<Longrightarrow> list_all fits_index ps \<Longrightarrow>
   columns_at cols ps = Inl (IndexError ''list index out of range'')"
proof (induction ps)
  case Nil
  then show ?case by simp
next
  case (Cons p ps)
  show ?case
  proof (cases "py_getitem cols p")
    case (Inl e)
    from py_getitem_error [OF this] Inl Cons.prems(3) show ?thesis
      by simp
  next
    case (Inr c)
    then have "p \<noteq> i" using Cons.prems(2)
      by (auto simp: py_getitem_def split: if_splits)
    with Cons.prems have "i \<in> set ps" "list_all fits_index ps" by simp_all
    from Cons.IH [OF this(1) Cons.prems(2) this(2)] Inr show ?thesis
      by simp
  qed
qed

lemma py_getitem_in_range:
  assumes "- int (length xs) \<le> i" and "i < int (length xs)"
  shows "py_getitem xs i = Inr (if i < 0 then rev xs ! nat (- i - 1) else xs ! nat i)"
proof (cases "i < 0")
  case True
  with assms have lt: "nat (- i - 1) < length xs" by linarith
  from True assms have idx: "length xs - Suc (nat (- i - 1)) = nat (int (length xs) + i)"
    by linarith
  from True assms have "py_getitem xs i = Inr (xs ! nat (int (length xs) + i))"
    by (simp add: py_getitem_def)
  with True lt idx show ?thesis by (simp add: rev_nth)
next
  case False
  with assms show ?thesis by (simp add: py_getitem_def)
qed

lemma columns_at_in_range:
  "list_all (\<lambda>i. - int (length cols) \<le> i \<and> i < int (length cols)) ps \<Longrightarrow>
   columns_at cols ps =
     Inr (map (\<lambda>i. if i < 0 then rev cols ! nat (- i - 1) else cols ! nat i) ps)"
  by (induction ps) (simp_all add: py_getitem_in_range)

lemma resolve_positions_valid:
  "list_all (\<lambda>i. 0 \<le> i \<and> i < int (length cols)) ps \<Longrightarrow>
   resolve_positions cols ps = columns_at cols ps"
  by (induction ps) (simp_all add: py_getitem_def)

lemma demo_scan:
  "scan_hdf5 demo_engine (SrcStr ''~/d.h5'') None None =
   Inr (LazyFrame (Hdf5Scan (Some ''/data/d.h5'') [] None None))"
  by (simp add: scan_hdf5_impl_def demo_engine_def wrap_ldf_def)

lemma demo_scan_columns:
  "columns_of demo_engine (Hdf5Scan (Some ''/data/d.h5'') [] None None) = [''x'', ''y'', ''z'']"
  by (simp add: demo_engine_def)

text \<open>
  \<^verbatim>\<open>_scan_hdf5_impl\<close> never passes both a source and a non-empty list, and it passes
  exactly one of them unless it is given the empty list.
\<close>

lemma source_and_sources_not_both:
  "source_and_sources source = (single, sources) \<Longrightarrow> \<not> (single \<noteq> None \<and> sources \<noteq> [])"
  by (cases source) auto

lemma source_and_sources_one:
  "source_and_sources source = (single, sources) \<Longrightarrow> source \<noteq> ManySources [] \<Longrightarrow>
   (single \<noteq> None) \<noteq> (sources \<noteq> [])"
  by (cases source) auto

subsection \<open>The source of a scan\<close>

text \<open>
  C2, as amended. A single path-like value (a \<^verbatim>\<open>str\<close> or a \<^verbatim>\<open>Path\<close>) is accepted: the scan
  is what the engine's primitive builds for the normalized path. A value of any other
  shape, an ordered sequence of path-like values included, fails at once with the
  \<^verbatim>\<open>AttributeError\<close> of \<^verbatim>\<open>scan_hdf5\<close> (the specification's \<open>InvalidSourceKind\<close>), whatever
  the engine is: the engine is not consulted.
\<close>

theorem scan_hdf5_by_source_kind:
  "scan_hdf5 E src subgroup format =
     (if is_path_like src
      then (case new_from_hdf5 E (Some (normalize_filepath E (path_text src))) [] subgroup format of
              Inl e \<Rightarrow> Inl e
            | Inr pylf \<Rightarrow> Inr (LazyFrame pylf))
      else Inl (AttributeError ''MyErr: path not str or path?''))"
  by (cases src) (simp_all add: scan_hdf5_impl_def wrap_ldf_def split: sum.splits)

theorem scan_hdf5_by_source_kind_witness:
  "scan_hdf5 demo_engine (SrcPath ''~/d.h5'') (Some ''grp'') None =
     Inr (LazyFrame (Hdf5Scan (Some ''/data/d.h5'') [] (Some ''grp'') None))
   \<and> scan_hdf5 demo_engine SrcStream (Some ''grp'') None =
     Inl (AttributeError ''MyErr: path not str or path?'')"
  using scan_hdf5_by_source_kind [of demo_engine "SrcPath ''~/d.h5''" "Some ''grp''" None]
    scan_hdf5_by_source_kind [of demo_engine SrcStream "Some ''grp''" None]
  by (simp add: demo_engine_def)

text \<open>
  C2 as stated fails on an ordered sequence of two paths: the scan is not constructed,
  the call raises.
\<close>

theorem scan_hdf5_path_list_rejected:
  "scan_hdf5 demo_engine (SrcList [SrcStr ''~/d.h5'', SrcStr ''~/e.h5'']) None None =
     Inl (AttributeError ''MyErr: path not str or path?'')"
  by simp

text \<open>
  C9, as amended. Whatever the engine's primitive \<^verbatim>\<open>new_from_hdf5\<close> is, \<^verbatim>\<open>_scan_hdf5_impl\<close>
  returns the result of calling it on a source argument and a source-list argument that
  are: the path and the empty list for a single path, \<^verbatim>\<open>None\<close> and the list for a list.
  So the two are never both non-empty, and exactly one of them is non-empty unless the
  list is empty. Every source that \<^verbatim>\<open>scan_hdf5\<close> accepts reaches the primitive as the
  normalized path of the caller's value and the empty list.
\<close>

theorem scan_hdf5_impl_source_arguments:
  "(\<exists>single sources.
       (\<forall>f. scan_hdf5_impl (E\<lparr>new_from_hdf5 := f\<rparr>) source subgroup format =
              (case f single sources subgroup format of
                 Inl e \<Rightarrow> Inl e
               | Inr pylf \<Rightarrow> Inr (wrap_ldf pylf)))
     \<and> (\<forall>s. source = OneSource s \<longrightarrow> single = Some s \<and> sources = [])
     \<and> (\<forall>xs. source = ManySources xs \<longrightarrow> single = None \<and> sources = xs)
     \<and> \<not> (single \<noteq> None \<and> sources \<noteq> [])
     \<and> (source \<noteq> ManySources [] \<longrightarrow> (single \<noteq> None) \<noteq> (sources \<noteq> [])))
   \<and> (is_path_like src \<longrightarrow>
       (\<forall>f. scan_hdf5 (E\<lparr>new_from_hdf5 := f\<rparr>) src subgroup format =
              (case f (Some (normalize_filepath E (path_text src))) [] subgroup format of
                 Inl e \<Rightarrow> Inl e
               | Inr pylf \<Rightarrow> Inr (wrap_ldf pylf))))"
proof (intro conjI impI allI)
  show "\<exists>single sources.
       (\<forall>f. scan_hdf5_impl (E\<lparr>new_from_hdf5 := f\<rparr>) source subgroup format =
              (case f single sources subgroup format of
                 Inl e \<Rightarrow> Inl e
               | Inr pylf \<Rightarrow> Inr (wrap_ldf pylf)))
     \<and> (\<forall>s. source = OneSource s \<longrightarrow> single = Some s \<and> sources = [])
     \<and> (\<forall>xs. source = ManySources xs \<longrightarrow> single = None \<and> sources = xs)
     \<and> \<not> (single \<noteq> None \<and> sources \<noteq> [])
     \<and> (source \<noteq> ManySources [] \<longrightarrow> (single \<noteq> None) \<noteq> (sources \<noteq> []))"
  proof (cases source)
    case (OneSource s)
    then show ?thesis
      by (intro exI [of _ "Some s"] exI [of _ "[]"]) (simp add: scan_hdf5_impl_def)
  next
    case (ManySources xs)
    then show ?thesis
      by (intro exI [of _ None] exI [of _ xs]) (simp add: scan_hdf5_impl_def)
  qed
next
  fix f
  assume "is_path_like src"
  then show "scan_hdf5 (E\<lparr>new_from_hdf5 := f\<rparr>) src subgroup format =
          (case f (Some (normalize_filepath E (path_text src))) [] subgroup format of
             Inl e \<Rightarrow> Inl e
           | Inr pylf \<Rightarrow> Inr (wrap_ldf pylf))"
    by (cases src) (simp_all add: scan_hdf5_impl_def)
qed

theorem scan_hdf5_impl_source_arguments_witness:
  "scan_hdf5_impl demo_engine (ManySources [''/data/d.h5'', ''/data/e.h5'']) None None =
     Inr (LazyFrame (Hdf5Scan None [''/data/d.h5'', ''/data/e.h5''] None None))
   \<and> scan_hdf5 demo_engine (SrcStr ''~/d.h5'') None None =
     Inr (LazyFrame (Hdf5Scan (Some ''/data/d.h5'') [] None None))"
proof -
  let ?rec = "\<lambda>s ss sg f. Inr (Hdf5Scan s ss sg f) :: error + plan"
  have same: "demo_engine\<lparr>new_from_hdf5 := ?rec\<rparr> = demo_engine"
    by (simp add: demo_engine_def)
  from scan_hdf5_impl_source_arguments
    [of demo_engine "ManySources [''/data/d.h5'', ''/data/e.h5'']" None None "SrcStr ''~/d.h5''"]
  obtain single sources
    where call: "\<forall>f. scan_hdf5_impl (demo_engine\<lparr>new_from_hdf5 := f\<rparr>)
              (ManySources [''/data/d.h5'', ''/data/e.h5'']) None None =
              (case f single sources None None of
                 Inl e \<Rightarrow> Inl e
               | Inr pylf \<Rightarrow> Inr (wrap_ldf pylf))"
      and many: "\<forall>xs. ManySources [''/data/d.h5'', ''/data/e.h5''] = ManySources xs
                  \<longrightarrow> single = None \<and> sources = xs"
      and path: "is_path_like (SrcStr ''~/d.h5'') \<longrightarrow>
        (\<forall>f. scan_hdf5 (demo_engine\<lparr>new_from_hdf5 := f\<rparr>) (SrcStr ''~/d.h5'') None None =
              (case f (Some (normalize_filepath demo_engine (path_text (SrcStr ''~/d.h5''))))
                      [] None None of
                 Inl e \<Rightarrow> Inl e
               | Inr pylf \<Rightarrow> Inr (wrap_ldf pylf)))"
    by blast
  from many have args: "single = None" "sources = [''/data/d.h5'', ''/data/e.h5'']"
    by simp_all
  from call have "scan_hdf5_impl (demo_engine\<lparr>new_from_hdf5 := ?rec\<rparr>)
      (ManySources [''/data/d.h5'', ''/data/e.h5'']) None None =
      (case ?rec single sources None None of
         Inl e \<Rightarrow> Inl e
       | Inr pylf \<Rightarrow> Inr (wrap_ldf pylf))"
    by (rule spec)
  with args same have 1: "scan_hdf5_impl demo_engine
      (ManySources [''/data/d.h5'', ''/data/e.h5'']) None None =
      Inr (LazyFrame (Hdf5Scan None [''/data/d.h5'', ''/data/e.h5''] None None))"
    by (simp add: wrap_ldf_def)
  from path have "\<forall>f. scan_hdf5 (demo_engine\<lparr>new_from_hdf5 := f\<rparr>) (SrcStr ''~/d.h5'') None None =
              (case f (Some (normalize_filepath demo_engine (path_text (SrcStr ''~/d.h5''))))
                      [] None None of
                 Inl e \<Rightarrow> Inl e
               | Inr pylf \<Rightarrow> Inr (wrap_ldf pylf))"
    by simp
  then have "scan_hdf5 (demo_engine\<lparr>new_from_hdf5 := ?rec\<rparr>) (SrcStr ''~/d.h5'') None None =
      (case ?rec (Some (normalize_filepath demo_engine (path_text (SrcStr ''~/d.h5''))))
              [] None None of
         Inl e \<Rightarrow> Inl e
       | Inr pylf \<Rightarrow> Inr (wrap_ldf pylf))"
    by (rule spec)
  with same have 2: "scan_hdf5 demo_engine (SrcStr ''~/d.h5'') None None =
      Inr (LazyFrame (Hdf5Scan (Some ''/data/d.h5'') [] None None))"
    by (simp add: wrap_ldf_def demo_engine_def)
  from 1 2 show ?thesis by simp
qed

text \<open>
  C9 as stated fails on the empty list: \<^verbatim>\<open>_scan_hdf5_impl\<close> sets the source to \<^verbatim>\<open>None\<close>
  and passes the empty list, so the primitive receives two empty arguments, not exactly
  one non-empty.
\<close>

theorem scan_hdf5_impl_empty_list:
  "source_and_sources (ManySources []) = (None, [])
   \<and> scan_hdf5_impl demo_engine (ManySources []) None None =
       Inr (LazyFrame (Hdf5Scan None [] None None))"
  by (simp add: scan_hdf5_impl_def demo_engine_def wrap_ldf_def)

subsection \<open>Selecting columns by position\<close>

text \<open>
  C3, as amended. Where the scan succeeds and the integer selector holds a position
  \<open>i\<close> that is at least the length of the frame's schema, \<^verbatim>\<open>read_hdf5\<close> fails with
  Python's \<^verbatim>\<open>IndexError\<close> and returns no table. Its message is one of two fixed texts,
  neither of which names the position or the length: "list index out of range", which
  it is whenever every position of the selector fits a machine index, or "cannot fit
  'int' into an index-sized integer".
\<close>

theorem read_hdf5_position_out_of_range:
  assumes "scan_hdf5 E src subgroup format = Inr lf"
    and "i \<in> set ps"
    and "int (length (columns_of E (pyldf lf))) \<le> i"
  shows "(read_hdf5 E src subgroup format (Some (IntSeq ps)) =
            Inl (IndexError ''list index out of range'')
        \<or> read_hdf5 E src subgroup format (Some (IntSeq ps)) =
            Inl (IndexError cannot_fit_message))
       \<and> (list_all fits_index ps \<longrightarrow>
            read_hdf5 E src subgroup format (Some (IntSeq ps)) =
              Inl (IndexError ''list index out of range''))"
proof (intro conjI impI)
  from columns_at_out_of_range [OF assms(2) assms(3)] assms(1)
  show "read_hdf5 E src subgroup format (Some (IntSeq ps)) =
            Inl (IndexError ''list index out of range'')
        \<or> read_hdf5 E src subgroup format (Some (IntSeq ps)) =
            Inl (IndexError cannot_fit_message)"
    by (auto simp: read_hdf5_def)
next
  assume "list_all fits_index ps"
  from columns_at_out_of_range_fitting [OF assms(2) assms(3) this] assms(1)
  show "read_hdf5 E src subgroup format (Some (IntSeq ps)) =
          Inl (IndexError ''list index out of range'')"
    by (simp add: read_hdf5_def)
qed

theorem read_hdf5_position_out_of_range_witness:
  "read_hdf5 demo_engine (SrcStr ''~/d.h5'') None None (Some (IntSeq [0, 5])) =
     Inl (IndexError ''list index out of range'')
   \<and> read_hdf5 demo_engine (SrcStr ''~/d.h5'') None None (Some (IntSeq [2 ^ 63])) =
     Inl (IndexError cannot_fit_message)"
proof -
  have "(5::int) \<in> set [0, 5]" by simp
  moreover have "int (length (columns_of demo_engine
      (pyldf (LazyFrame (Hdf5Scan (Some ''/data/d.h5'') [] None None))))) \<le> 5"
    by (simp add: demo_scan_columns)
  moreover have "list_all fits_index [0, 5]"
    by (simp add: fits_index_def)
  ultimately have 1: "read_hdf5 demo_engine (SrcStr ''~/d.h5'') None None (Some (IntSeq [0, 5])) =
      Inl (IndexError ''list index out of range'')"
    using read_hdf5_position_out_of_range [OF demo_scan, of 5 "[0, 5]"] by blast
  have 2: "read_hdf5 demo_engine (SrcStr ''~/d.h5'') None None (Some (IntSeq [2 ^ 63])) =
      Inl (IndexError cannot_fit_message)"
    by (simp add: read_hdf5_def scan_hdf5_impl_def demo_engine_def wrap_ldf_def py_getitem_def
        fits_index_def)
  from 1 2 show ?thesis by simp
qed

text \<open>
  C3 as stated fails: position 5 on a schema of length 3 and position 7 on a schema of
  length 2 raise one and the same error, which therefore names neither the offending
  position nor the schema length (and is not \<open>ColumnIndexOutOfRange 5 3\<close>).
\<close>

theorem read_hdf5_error_names_no_index:
  "read_hdf5 demo_engine (SrcStr ''~/d.h5'') None None (Some (IntSeq [5])) =
     Inl (IndexError ''list index out of range'')
   \<and> read_hdf5 demo_engine (SrcStr ''~/e.h5'') None None (Some (IntSeq [7])) =
     Inl (IndexError ''list index out of range'')
   \<and> read_hdf5 demo_engine (SrcStr ''~/d.h5'') None None (Some (IntSeq [5])) \<noteq>
     Inl (ColumnIndexOutOfRange 5 3)"
  by (simp add: read_hdf5_def scan_hdf5_impl_def demo_engine_def wrap_ldf_def py_getitem_def
      fits_index_def)

text \<open>
  C10. Where the scan succeeds and every position of the integer selector lies between
  minus the schema length and the schema length, \<^verbatim>\<open>read_hdf5\<close> does not reject the
  selector: it collects the projection on the resolved names, where a negative position
  \<open>- k\<close> is resolved to the \<open>k\<close>-th column counted from the end of the schema (element
  \<open>k - 1\<close> of the reversed schema) and any other position to the column at that index.
\<close>

theorem read_hdf5_negative_positions:
  assumes "scan_hdf5 E src subgroup format = Inr lf"
    and "cols = columns_of E (pyldf lf)"
    and "list_all (\<lambda>i. - int (length cols) \<le> i \<and> i < int (length cols)) ps"
  shows "read_hdf5 E src subgroup format (Some (IntSeq ps)) =
           collect E (select_cols E (pyldf lf)
             (map (\<lambda>i. if i < 0 then rev cols ! nat (- i - 1) else cols ! nat i) ps))"
  using assms(1) assms(3) unfolding assms(2)
  by (simp add: read_hdf5_def columns_at_in_range)

theorem read_hdf5_negative_positions_witness:
  "read_hdf5 demo_engine (SrcStr ''~/d.h5'') None None (Some (IntSeq [- 1, 0, - 3])) =
     Inr [(''z'', [5, 6]), (''x'', [1, 2]), (''x'', [1, 2])]"
proof -
  have "list_all (\<lambda>i. - int (length [''x'', ''y'', ''z'']) \<le> i \<and> i < int (length [''x'', ''y'', ''z'']))
          [- 1, 0, - 3]"
    by simp
  from read_hdf5_negative_positions [where cols = "[''x'', ''y'', ''z'']", OF demo_scan _ this]
  show ?thesis
    by (simp add: demo_engine_def)
qed

subsection \<open>\<^verbatim>\<open>read_hdf5\<close> and the three steps\<close>

text \<open>
  C5. For a source that \<^verbatim>\<open>scan_hdf5\<close> builds a frame for, any options, and an optional
  column selector that is valid for the frame's schema, \<^verbatim>\<open>read_hdf5\<close> returns what the
  three steps of the specification return when they are composed by hand: \<open>buildScan\<close>,
  then \<open>selectColumns\<close>, then \<open>materialize\<close>.
\<close>

theorem read_hdf5_is_build_select_materialize:
  assumes "scan_hdf5 E src subgroup format = Inr lf"
    and "valid_selector (columns_of E (pyldf lf)) columns"
  shows "read_hdf5 E src subgroup format columns =
           build_select_materialize E src subgroup format columns"
proof (cases columns)
  case None
  with assms show ?thesis
    by (simp add: read_hdf5_def build_select_materialize_def buildScan_def materialize_def)
next
  case (Some sel)
  show ?thesis
  proof (cases sel)
    case (IntSeq ps)
    with Some assms show ?thesis
      by (simp add: read_hdf5_def build_select_materialize_def buildScan_def materialize_def
          resolve_positions_valid split: sum.splits)
  next
    case (StrSeq ns)
    with Some assms show ?thesis
      by (cases ns) (simp_all add: read_hdf5_def build_select_materialize_def buildScan_def
          materialize_def)
  qed
qed

theorem read_hdf5_is_build_select_materialize_witness:
  "read_hdf5 demo_engine (SrcStr ''~/d.h5'') None None (Some (IntSeq [2, 0])) =
     build_select_materialize demo_engine (SrcStr ''~/d.h5'') None None (Some (IntSeq [2, 0]))
   \<and> build_select_materialize demo_engine (SrcStr ''~/d.h5'') None None (Some (IntSeq [2, 0])) =
     Inr [(''z'', [5, 6]), (''x'', [1, 2])]"
proof -
  have "valid_selector (columns_of demo_engine
      (pyldf (LazyFrame (Hdf5Scan (Some ''/data/d.h5'') [] None None)))) (Some (IntSeq [2, 0]))"
    by (simp add: demo_scan_columns)
  moreover have "build_select_materialize demo_engine (SrcStr ''~/d.h5'') None None
      (Some (IntSeq [2, 0])) = Inr [(''z'', [5, 6]), (''x'', [1, 2])]"
    by code_simp
  ultimately show ?thesis
    using read_hdf5_is_build_select_materialize [OF demo_scan] by simp
qed

section \<open>Properties of the template compiler\<close>

subsection \<open>Attaching a column\<close>

lemma map_of_attach: "map_of (attach name vs t) name = Some vs"
  by (induction t) auto



lemma trans_func_success:
  assumes "trans_func df name value = Some (Inr df')"
  shows "\<exists>vs. df' = attach name vs df"
proof -
  from assms obtain v where v: "py_eval (re_sub value) = Some v"
    by (auto simp: trans_func_def split: option.splits)
  with assms obtain e where e: "v = PyExpr e"
    by (cases v) (auto simp: trans_func_def)
  from assms v e have "with_columns df (Alias e name) = Inr df'"
    by (simp add: trans_func_def)
  then show ?thesis
    by (auto simp: with_columns_def bind_expr_def split: sum.splits list.splits)
qed







subsection \<open>What \<^verbatim>\<open>eval\<close> returns on some templates\<close>

lemma eval_a_plus_b:
  "py_eval (re_sub ''{a} + {b}'') = Some (PyExpr (BinaryExpr (Col ''a'') Add (Col ''b'')))"
  by code_simp





subsection \<open>The claims\<close>

text \<open>
  C4. For the template \<^verbatim>\<open>{a} + {b}\<close> and the table with the integer columns a = [1, 2] and
  b = [3, 4], \<^verbatim>\<open>trans_func\<close> returns, for every requested output name, the table with
  the column [4, 6] attached under that name, and looking the name up in the result
  gives [4, 6].
\<close>

theorem trans_func_a_plus_b:
  "trans_func [(''a'', [1, 2]), (''b'', [3, 4])] name ''{a} + {b}'' =
     Some (Inr (attach name [4, 6] [(''a'', [1, 2]), (''b'', [3, 4])]))
   \<and> map_of (attach name [4, 6] [(''a'', [1, 2]), (''b'', [3, 4])]) name = Some [4, 6]"
proof -
  have "trans_func [(''a'', [1, 2]), (''b'', [3, 4])] name ''{a} + {b}'' =
      Some (with_columns [(''a'', [1, 2]), (''b'', [3, 4])]
        (Alias (BinaryExpr (Col ''a'') Add (Col ''b'')) name))"
    unfolding trans_func_def Let_def eval_a_plus_b by simp
  moreover have "with_columns [(''a'', [1, 2]), (''b'', [3, 4])]
      (Alias (BinaryExpr (Col ''a'') Add (Col ''b'')) name) =
      Inr (attach name [4, 6] [(''a'', [1, 2]), (''b'', [3, 4])])"
    by (simp add: with_columns_def bind_expr_def)
  ultimately show ?thesis
    by (simp only: map_of_attach)
qed








text \<open>
  C1 fails on the code. Python's built-in \<^verbatim>\<open>len\<close> is neither a column reference nor an
  operator or function of the engine, yet a template that calls it is not refused: the
  text goes to \<^verbatim>\<open>eval\<close> and the built-in runs. The template \<^verbatim>\<open>len('ab')\<close> fails only
  afterwards, because the \<^verbatim>\<open>int\<close> that \<^verbatim>\<open>len\<close> returned has no \<^verbatim>\<open>alias\<close>; the template
  \<^verbatim>\<open>pl.lit(len('ab'))\<close> succeeds, with the column [2, 2].
\<close>

theorem trans_func_runs_builtin:
  "trans_func [(''a'', [1, 2]), (''b'', [3, 4])] ''n'' ''len('ab')'' =
     Some (Inl (AttributeError (quote # ''int'' @ quote # '' object has no attribute ''
                  @ quote # ''alias'' @ [quote])))
   \<and> trans_func [(''a'', [1, 2]), (''b'', [3, 4])] ''n'' ''pl.lit(len('ab'))'' =
     Some (Inr [(''a'', [1, 2]), (''b'', [3, 4]), (''n'', [2, 2])])"
  by code_simp

end
